theory Spec2Isabelle
  imports Complex_Main
begin

section \<open>Numbers of the program\<close>

text \<open>
  The analyzer computes in Go's \<open>float32\<close> and \<open>int\<close>.

  A \<open>float32\<close> is modelled by \<open>f32\<close>: a finite value carries the real number it
  stands for, and the three special values of IEEE-754 that Go's arithmetic produces
  are kept: a division by zero does not stop a Go program, it yields an infinity or a
  NaN, and every later comparison and \<open>min\<close>/\<open>max\<close> then follows the rules below.
  The idealisation is the usual one: arithmetic on finite values is exact (no rounding
  to 24 bits, no overflow to infinity, no sign on zero), so the constants \<open>0.001\<close> and
  \<open>0.1\<close> are the rationals they are written as.

  Go's \<open>int\<close> is modelled by \<open>int\<close>; the one sum of two unrelated ints the
  program forms is wrapped to 64 bits.
\<close>

datatype f32 = Fin real | PInf | NInf | NaN

fun fneg :: "f32 \<Rightarrow> f32" where
  "fneg (Fin a) = Fin (- a)"
| "fneg PInf = NInf"
| "fneg NInf = PInf"
| "fneg NaN = NaN"

fun fadd :: "f32 \<Rightarrow> f32 \<Rightarrow> f32" where
  "fadd (Fin a) (Fin b) = Fin (a + b)"
| "fadd NaN y = NaN"
| "fadd x NaN = NaN"
| "fadd PInf NInf = NaN"
| "fadd NInf PInf = NaN"
| "fadd PInf y = PInf"
| "fadd NInf y = NInf"
| "fadd (Fin a) y = y"

definition fsub :: "f32 \<Rightarrow> f32 \<Rightarrow> f32" where
  "fsub x y = fadd x (fneg y)"

text \<open>The sign of an infinity times a finite factor; zero times infinity is NaN.\<close>

definition signed_inf :: "bool \<Rightarrow> real \<Rightarrow> f32" where
  "signed_inf pos a = (if a = 0 then NaN else if (0 < a) = pos then PInf else NInf)"

fun fmul :: "f32 \<Rightarrow> f32 \<Rightarrow> f32" where
  "fmul (Fin a) (Fin b) = Fin (a * b)"
| "fmul NaN y = NaN"
| "fmul x NaN = NaN"
| "fmul PInf (Fin b) = signed_inf True b"
| "fmul NInf (Fin b) = signed_inf False b"
| "fmul (Fin a) PInf = signed_inf True a"
| "fmul (Fin a) NInf = signed_inf False a"
| "fmul PInf PInf = PInf"
| "fmul NInf NInf = PInf"
| "fmul PInf NInf = NInf"
| "fmul NInf PInf = NInf"

text \<open>
  Division: a nonzero finite value over zero is the infinity of the numerator's sign,
  zero over zero is NaN, a finite value over an infinity is zero.
\<close>

fun fdiv :: "f32 \<Rightarrow> f32 \<Rightarrow> f32" where
  "fdiv (Fin a) (Fin b) = (if b = 0 then signed_inf True a else Fin (a / b))"
| "fdiv NaN y = NaN"
| "fdiv x NaN = NaN"
| "fdiv (Fin a) PInf = Fin 0"
| "fdiv (Fin a) NInf = Fin 0"
| "fdiv PInf (Fin b) = (if 0 \<le> b then PInf else NInf)"
| "fdiv NInf (Fin b) = (if 0 \<le> b then NInf else PInf)"
| "fdiv PInf y = NaN"
| "fdiv NInf y = NaN"

text \<open>Comparisons: every comparison with NaN is false.\<close>

fun flt :: "f32 \<Rightarrow> f32 \<Rightarrow> bool" where
  "flt (Fin a) (Fin b) = (a < b)"
| "flt NaN y = False"
| "flt x NaN = False"
| "flt x NInf = False"
| "flt PInf y = False"
| "flt NInf y = True"
| "flt (Fin a) PInf = True"

fun fle :: "f32 \<Rightarrow> f32 \<Rightarrow> bool" where
  "fle (Fin a) (Fin b) = (a \<le> b)"
| "fle NaN y = False"
| "fle x NaN = False"
| "fle NInf y = True"
| "fle x PInf = True"
| "fle PInf y = False"
| "fle (Fin a) NInf = False"

text \<open>Go's built-in \<open>min\<close> and \<open>max\<close>: NaN as soon as one argument is NaN.\<close>

definition fmax :: "f32 \<Rightarrow> f32 \<Rightarrow> f32" where
  "fmax x y = (if x = NaN \<or> y = NaN then NaN else if flt x y then y else x)"

definition fmin :: "f32 \<Rightarrow> f32 \<Rightarrow> f32" where
  "fmin x y = (if x = NaN \<or> y = NaN then NaN else if flt y x then y else x)"

definition fmin3 :: "f32 \<Rightarrow> f32 \<Rightarrow> f32 \<Rightarrow> f32" where
  "fmin3 x y z = fmin (fmin x y) z"

text \<open>The conversion \<open>float32(n)\<close> of an int.\<close>

definition ofInt :: "int \<Rightarrow> f32" where
  "ofInt n = Fin (of_int n)"

definition wrap64 :: "int \<Rightarrow> int" where
  "wrap64 x = (x + 2 ^ 63) mod 2 ^ 64 - 2 ^ 63"


section \<open>Data model (types.go)\<close>

text \<open>
  A pointer to a struct is modelled by the struct it points to. The three pointers
  that \<open>Configuration.check\<close> compares with \<open>nil\<close> are options in the configuration;
  an analyzer holds the structs themselves.
\<close>

definition Epsilon :: f32 where
  "Epsilon = Fin (1 / 1000)"

definition StabilitySafetyFraction :: f32 where
  "StabilitySafetyFraction = Fin (1 / 10)"

record PrefillParms =
  Gamma :: f32
  Delta :: f32

record DecodeParms =
  Alpha :: f32
  Beta :: f32

record ServiceParms =
  Prefill :: PrefillParms
  Decode :: DecodeParms

record ServiceParmsRef =
  PrefillRef :: "PrefillParms option"
  DecodeRef :: "DecodeParms option"

record Configuration =
  MaxBatchSize_cfg :: int
  MaxQueueSize_cfg :: int
  ServiceParms_cfg :: "ServiceParmsRef option"

record RequestSize =
  AvgInputTokens :: int
  AvgOutputTokens :: int

text \<open>
  Service parameters with the finite values \<open>gamma\<close>, \<open>delta\<close>, \<open>alpha\<close>, \<open>beta\<close>,
  and a configuration with its three pointers set.
\<close>

definition mkParms :: "real \<Rightarrow> real \<Rightarrow> real \<Rightarrow> real \<Rightarrow> ServiceParms" where
  "mkParms g d a b =
     \<lparr>Prefill = \<lparr>Gamma = Fin g, Delta = Fin d\<rparr>, Decode = \<lparr>Alpha = Fin a, Beta = Fin b\<rparr>\<rparr>"

definition mkConfig :: "int \<Rightarrow> int \<Rightarrow> ServiceParms \<Rightarrow> Configuration" where
  "mkConfig maxBatch maxQueue parms =
     \<lparr>MaxBatchSize_cfg = maxBatch, MaxQueueSize_cfg = maxQueue,
      ServiceParms_cfg = Some \<lparr>PrefillRef = Some (Prefill parms),
                               DecodeRef = Some (Decode parms)\<rparr>\<rparr>"

record RateRange =
  Min_rr :: f32
  Max_rr :: f32

record AnalysisMetrics =
  Throughput :: f32
  AvgRespTime :: f32
  AvgWaitTime :: f32
  AvgNumInServ :: f32
  AvgPrefillTime :: f32
  AvgTokenTime :: f32
  MaxRate :: f32
  Rho :: f32

record TargetPerf =
  TargetTTFT :: f32
  TargetITL :: f32
  TargetTPS :: f32

record TargetRate =
  RateTargetTTFT :: f32
  RateTargetITL :: f32
  RateTargetTPS :: f32

text \<open>
  The errors. The source builds them with \<open>fmt.Errorf\<close>; the constructors name the
  place that builds each one: the three \<open>check\<close> methods, the two guards and the
  validity test of \<open>Analyze\<close>, the message "target is below the bounded region" of
  \<open>Size\<close>, and the two messages "failed to calculate lambdaStarTTFT/ITL" that wrap the
  error of a search. \<open>SearchError\<close> is an error of the search routine's own, \<open>Panic\<close>
  a run-time panic.
\<close>

datatype error =
    InvalidConfig
  | InvalidWorkload
  | InvalidTarget
  | InvalidRate
  | RateOutOfRange
  | ModelDivergence
  | TargetUnreachableLow
  | SearchError
  | FailedLambdaStarTTFT error
  | FailedLambdaStarITL error
  | Panic

section \<open>The queueing model and the search routine\<close>

text \<open>
  Modelled from the spec: the packages \<open>queue\<close> (the state-dependent M/M/1 model) and
  \<open>utils\<close> (the binary search and the variable \<open>utils.Model\<close>) are not among the
  sources. The spec gives the model as an object constructed from the occupancy bound
  and the service-rate profile, with \<open>solve(arrivalRate, precision)\<close> that returns
  nothing and overwrites the last solved state, \<open>isValid\<close> and five read accessors.
  The numerical method is a parameter: \<open>solver\<close> computes the solved state from the
  constructor's arguments, the state solved last and the arguments of \<open>Solve\<close>;
  \<open>unsolved\<close> is the state of a model that was never solved.
\<close>

record solution =
  isValid :: bool
  avgNumInServers :: f32
  avgServTime :: f32
  throughput :: f32
  avgRespTime :: f32
  avgWaitTime :: f32

record queue_pkg =
  unsolved :: solution
  solver :: "int \<Rightarrow> f32 list \<Rightarrow> solution \<Rightarrow> f32 \<Rightarrow> int \<Rightarrow> solution"

record MM1ModelStateDependent =
  occupancyUpperBound :: int
  servRate :: "f32 list"
  solved :: solution

definition NewMM1ModelStateDependent ::
  "queue_pkg \<Rightarrow> int \<Rightarrow> f32 list \<Rightarrow> MM1ModelStateDependent" where
  "NewMM1ModelStateDependent q K rates =
     \<lparr>occupancyUpperBound = K, servRate = rates, solved = unsolved q\<rparr>"

definition Solve ::
  "queue_pkg \<Rightarrow> MM1ModelStateDependent \<Rightarrow> f32 \<Rightarrow> int \<Rightarrow> MM1ModelStateDependent" where
  "Solve q m x p =
     m\<lparr>solved := solver q (occupancyUpperBound m) (servRate m) (solved m) x p\<rparr>"

definition IsValid :: "MM1ModelStateDependent \<Rightarrow> bool" where
  "IsValid m = isValid (solved m)"

definition GetAvgNumInServers :: "MM1ModelStateDependent \<Rightarrow> f32" where
  "GetAvgNumInServers m = avgNumInServers (solved m)"

definition GetAvgServTime :: "MM1ModelStateDependent \<Rightarrow> f32" where
  "GetAvgServTime m = avgServTime (solved m)"

definition GetThroughput :: "MM1ModelStateDependent \<Rightarrow> f32" where
  "GetThroughput m = throughput (solved m)"

definition GetAvgRespTime :: "MM1ModelStateDependent \<Rightarrow> f32" where
  "GetAvgRespTime m = avgRespTime (solved m)"

definition GetAvgWaitTime :: "MM1ModelStateDependent \<Rightarrow> f32" where
  "GetAvgWaitTime m = avgWaitTime (solved m)"

text \<open>
  The model object is the state: a function that solves it takes the object and returns
  it as it leaves it. An evaluation function of the search is such a function, and the
  search, which may call it any number of times, is a parameter of that shape:
  \<open>BinarySearch(low, high, target, evalFn)\<close> returns the point, the boundary indicator
  and an error.
\<close>

type_synonym evalFn =
  "f32 \<Rightarrow> MM1ModelStateDependent \<Rightarrow> (error + f32) \<times> MM1ModelStateDependent"

type_synonym search =
  "f32 \<Rightarrow> f32 \<Rightarrow> f32 \<Rightarrow> evalFn \<Rightarrow> MM1ModelStateDependent
     \<Rightarrow> (f32 \<times> int \<times> error option) \<times> MM1ModelStateDependent"

section \<open>Validation (the three \<open>check\<close> methods)\<close>

definition check_Configuration :: "Configuration \<Rightarrow> error option" where
  "check_Configuration c =
     (if MaxBatchSize_cfg c \<le> 0 \<or> MaxQueueSize_cfg c < 0 \<or>
         (case ServiceParms_cfg c of
            None \<Rightarrow> True
          | Some sp \<Rightarrow> PrefillRef sp = None \<or> DecodeRef sp = None)
      then Some InvalidConfig else None)"

definition check_RequestSize :: "RequestSize \<Rightarrow> error option" where
  "check_RequestSize rq =
     (if AvgInputTokens rq < 0 \<or> AvgOutputTokens rq < 1
      then Some InvalidWorkload else None)"

definition check_TargetPerf :: "TargetPerf \<Rightarrow> error option" where
  "check_TargetPerf targetPerf =
     (if flt (TargetITL targetPerf) (Fin 0) \<or>
         flt (TargetTTFT targetPerf) (Fin 0) \<or>
         flt (TargetTPS targetPerf) (Fin 0)
      then Some InvalidTarget else None)"

section \<open>Service times and the effective concurrency\<close>

definition PrefillTime :: "PrefillParms \<Rightarrow> int \<Rightarrow> f32 \<Rightarrow> f32" where
  "PrefillTime p avgInputTokens batchSize =
     (if avgInputTokens = 0 then Fin 0
      else fadd (Gamma p) (fmul (fmul (Delta p) (ofInt avgInputTokens)) batchSize))"

definition DecodeTime :: "DecodeParms \<Rightarrow> f32 \<Rightarrow> f32" where
  "DecodeTime p batchSize = fadd (Alpha p) (fmul (Beta p) batchSize)"

text \<open>
  The numerator and the denominator of \<open>EffectiveConcurrency\<close> are its two local
  variables of these names. \<open>AvgOutputTokens - 1\<close> does not leave the range of a Go
  int for a workload that passed \<open>check\<close>.
\<close>

definition numerator :: "f32 \<Rightarrow> ServiceParms \<Rightarrow> RequestSize \<Rightarrow> f32" where
  "numerator avgServiceTime serviceParms requestSize =
     (let tokens = ofInt (AvgOutputTokens requestSize - 1)
      in fsub avgServiceTime
           (fadd (Gamma (Prefill serviceParms)) (fmul (Alpha (Decode serviceParms)) tokens)))"

definition denominator :: "ServiceParms \<Rightarrow> RequestSize \<Rightarrow> f32" where
  "denominator serviceParms requestSize =
     (let tokens = ofInt (AvgOutputTokens requestSize - 1)
      in fadd (fmul (Delta (Prefill serviceParms)) (ofInt (AvgInputTokens requestSize)))
              (fmul (Beta (Decode serviceParms)) tokens))"

definition EffectiveConcurrency :: "f32 \<Rightarrow> ServiceParms \<Rightarrow> RequestSize \<Rightarrow> int \<Rightarrow> f32" where
  "EffectiveConcurrency avgServiceTime serviceParms requestSize maxBatchSize =
     (let n = fdiv (numerator avgServiceTime serviceParms requestSize)
                   (denominator serviceParms requestSize)
      in fmin (fmax n (Fin 0)) (ofInt maxBatchSize))"

section \<open>Building the analyzer\<close>

record QueueAnalyzer =
  MaxBatchSize :: int
  MaxQueueSize :: int
  ServiceParms :: ServiceParms
  RequestSize :: RequestSize
  Model :: MM1ModelStateDependent
  RateRange :: RateRange

text \<open>
  The time one request takes at batch size \<open>batchSize\<close>: the divisor
  \<open>prefillTime + decodeTime\<close> of the loop of \<open>BuildModel\<close>.
\<close>

definition serviceTime :: "ServiceParms \<Rightarrow> RequestSize \<Rightarrow> f32 \<Rightarrow> f32" where
  "serviceTime parms requestSize batchSize =
     (let prefillTime = PrefillTime (Prefill parms) (AvgInputTokens requestSize) batchSize;
          decodeTime = fmul (ofInt (AvgOutputTokens requestSize - 1))
                            (DecodeTime (Decode parms) batchSize)
      in fadd prefillTime decodeTime)"

text \<open>The service rate \<open>float32(n) / (prefillTime + decodeTime)\<close> at batch size \<open>n\<close>.\<close>

definition serviceRate :: "ServiceParms \<Rightarrow> RequestSize \<Rightarrow> int \<Rightarrow> f32" where
  "serviceRate parms requestSize n =
     fdiv (ofInt n) (serviceTime parms requestSize (ofInt n))"

text \<open>
  The loop \<open>for n := 1; n <= MaxBatchSize; n++\<close>, which stores into \<open>servRate[n-1]\<close>;
  \<open>N\<close> is \<open>MaxBatchSize\<close>.
\<close>

function servRateLoop ::
  "ServiceParms \<Rightarrow> RequestSize \<Rightarrow> int \<Rightarrow> int \<Rightarrow> f32 list \<Rightarrow> f32 list" where
  "servRateLoop parms requestSize N n rates =
     (if n \<le> N
      then servRateLoop parms requestSize N (n + 1)
             (rates[nat (n - 1) := serviceRate parms requestSize n])
      else rates)"
  by pat_completeness auto
termination
  by (relation "measure (\<lambda>(parms, requestSize, N, n, rates). nat (N + 1 - n))") auto

text \<open>
  \<open>BuildModel\<close> has no error result, but it panics where it is called on a
  configuration that \<open>check\<close> rejects: \<open>make\<close> on a negative length, \<open>servRate[0]\<close>
  on an empty slice, a \<open>nil\<close> pointer followed. The model reports the panic at once
  (with \<open>Prefill\<close> alone \<open>nil\<close> and no input tokens the source panics one call
  later, at the first \<open>Analyze\<close>).
\<close>

definition derefServiceParms :: "ServiceParmsRef option \<Rightarrow> ServiceParms option" where
  "derefServiceParms r =
     (case r of
        None \<Rightarrow> None
      | Some sp \<Rightarrow>
          (case (PrefillRef sp, DecodeRef sp) of
             (Some p, Some d) \<Rightarrow> Some \<lparr>Prefill = p, Decode = d\<rparr>
           | _ \<Rightarrow> None))"

definition BuildModel ::
  "queue_pkg \<Rightarrow> Configuration \<Rightarrow> RequestSize \<Rightarrow> error + QueueAnalyzer" where
  "BuildModel q qConfig requestSize =
     (case derefServiceParms (ServiceParms_cfg qConfig) of
        None \<Rightarrow> Inl Panic
      | Some parms \<Rightarrow>
          if MaxBatchSize_cfg qConfig \<le> 0 then Inl Panic
          else
            let rates = servRateLoop parms requestSize (MaxBatchSize_cfg qConfig) 1
                          (replicate (nat (MaxBatchSize_cfg qConfig)) (Fin 0));
                lambdaMin = fmul (rates ! 0) Epsilon;
                lambdaMax = fmul (rates ! nat (MaxBatchSize_cfg qConfig - 1))
                                 (fsub (Fin 1) Epsilon);
                rateRange = \<lparr>Min_rr = fmul lambdaMin (Fin 1000),
                             Max_rr = fmul lambdaMax (Fin 1000)\<rparr>;
                occupancyUpperBound =
                  wrap64 (MaxQueueSize_cfg qConfig + MaxBatchSize_cfg qConfig);
                model = NewMM1ModelStateDependent q occupancyUpperBound rates
            in Inr \<lparr>MaxBatchSize = MaxBatchSize_cfg qConfig,
                    MaxQueueSize = MaxQueueSize_cfg qConfig,
                    ServiceParms = parms,
                    RequestSize = requestSize,
                    Model = model,
                    RateRange = rateRange\<rparr>)"

definition NewQueueAnalyzer ::
  "queue_pkg \<Rightarrow> Configuration \<Rightarrow> RequestSize \<Rightarrow> error + QueueAnalyzer" where
  "NewQueueAnalyzer q qConfig requestSize =
     (case check_Configuration qConfig of
        Some err \<Rightarrow> Inl err
      | None \<Rightarrow>
          (case check_RequestSize requestSize of
             Some err \<Rightarrow> Inl err
           | None \<Rightarrow> BuildModel q qConfig requestSize))"


section \<open>Evaluating the metrics at a request rate\<close>

text \<open>
  \<open>Analyze\<close> returns the metrics or an error, and the model object as the call
  leaves it (solved at the rate, or untouched when a guard refused the rate).
\<close>

definition Analyze ::
  "queue_pkg \<Rightarrow> QueueAnalyzer \<Rightarrow> f32 \<Rightarrow> (error + AnalysisMetrics) \<times> MM1ModelStateDependent" where
  "Analyze q qa requestRate =
     (if fle requestRate (Fin 0) then (Inl InvalidRate, Model qa)
      else
        let rateRange = RateRange qa in
        if flt (Max_rr rateRange) requestRate then (Inl RateOutOfRange, Model qa)
        else
          let model = Solve q (Model qa) (fdiv requestRate (Fin 1000)) 1 in
          if \<not> IsValid model then (Inl ModelDivergence, model)
          else
            let avgNumInServ = GetAvgNumInServers model;
                effConc = EffectiveConcurrency (GetAvgServTime model) (ServiceParms qa)
                            (RequestSize qa) (MaxBatchSize qa);
                prefillTime = PrefillTime (Prefill (ServiceParms qa))
                                (AvgInputTokens (RequestSize qa)) effConc;
                tokenTime = DecodeTime (Decode (ServiceParms qa)) effConc;
                rho = fdiv avgNumInServ (ofInt (MaxBatchSize qa));
                rho = fmin (fmax rho (Fin 0)) (Fin 1)
            in (Inr \<lparr>Throughput = fmul (GetThroughput model) (Fin 1000),
                     AvgRespTime = GetAvgRespTime model,
                     AvgWaitTime = GetAvgWaitTime model,
                     AvgNumInServ = avgNumInServ,
                     AvgPrefillTime = prefillTime,
                     AvgTokenTime = tokenTime,
                     MaxRate = Max_rr rateRange,
                     Rho = rho\<rparr>, model))"

section \<open>Sizing for target performance\<close>

text \<open>
  The package variables that \<open>Size\<close> sets for the two evaluation functions. The fourth,
  \<open>utils.Model\<close>, is set to the analyzer's model object: it is the state the
  evaluation functions take and return.
\<close>

record evalGlobals =
  evalRequestSize :: RequestSize
  evalServiceParms :: ServiceParms
  evalMaxBatchSize :: int

definition EvalTTFT :: "queue_pkg \<Rightarrow> evalGlobals \<Rightarrow> evalFn" where
  "EvalTTFT q g x utilsModel =
     (let model = Solve q utilsModel x 1 in
      if \<not> IsValid model then (Inl ModelDivergence, model)
      else
        let avgWaitTime = GetAvgWaitTime model;
            effConc = EffectiveConcurrency (GetAvgServTime model) (evalServiceParms g)
                        (evalRequestSize g) (evalMaxBatchSize g);
            ttft = fadd avgWaitTime
                     (PrefillTime (Prefill (evalServiceParms g))
                        (AvgInputTokens (evalRequestSize g)) effConc)
        in (Inr ttft, model))"

definition EvalITL :: "queue_pkg \<Rightarrow> evalGlobals \<Rightarrow> evalFn" where
  "EvalITL q g x utilsModel =
     (let model = Solve q utilsModel x 1 in
      if \<not> IsValid model then (Inl ModelDivergence, model)
      else
        let effConc = EffectiveConcurrency (GetAvgServTime model) (evalServiceParms g)
                        (evalRequestSize g) (evalMaxBatchSize g)
        in (Inr (DecodeTime (Decode (evalServiceParms g)) effConc), model))"

text \<open>
  One of the two blocks "find max rate to achieve target": the rate stays at
  \<open>lambdaMax\<close> for a target that is not positive; otherwise the search runs, a negative
  indicator replaces its error, and an error leaves \<open>Size\<close> under the block's message
  (\<open>failed\<close>).
\<close>

definition lambdaStar ::
  "search \<Rightarrow> (error \<Rightarrow> error) \<Rightarrow> evalFn \<Rightarrow> f32 \<Rightarrow> f32 \<Rightarrow> f32 \<Rightarrow> MM1ModelStateDependent
     \<Rightarrow> (error + f32) \<times> MM1ModelStateDependent" where
  "lambdaStar BinarySearch failed eval lambdaMin lambdaMax target utilsModel =
     (if flt (Fin 0) target
      then
        (case BinarySearch lambdaMin lambdaMax target eval utilsModel of
           ((x, ind, err), utilsModel') \<Rightarrow>
             (case (if ind < 0 then Some TargetUnreachableLow else err) of
                Some e \<Rightarrow> (Inl (failed e), utilsModel')
              | None \<Rightarrow> (Inr x, utilsModel')))
      else (Inr lambdaMax, utilsModel))"

text \<open>
  The first part of \<open>Size\<close>, after the check of the targets: the three rates
  \<open>lambdaStarTTFT\<close>, \<open>lambdaStarITL\<close>, \<open>lambdaStarTPS\<close> (requests per millisecond).
\<close>

definition lambdaStars ::
  "queue_pkg \<Rightarrow> search \<Rightarrow> QueueAnalyzer \<Rightarrow> TargetPerf
     \<Rightarrow> (error + f32 \<times> f32 \<times> f32) \<times> MM1ModelStateDependent" where
  "lambdaStars q BinarySearch qa targetPerf =
     (let targetTTFT = TargetTTFT targetPerf;
          targetITL = TargetITL targetPerf;
          targetTPS = TargetTPS targetPerf;
          lambdaMin = fdiv (Min_rr (RateRange qa)) (Fin 1000);
          lambdaMax = fdiv (Max_rr (RateRange qa)) (Fin 1000);
          g = \<lparr>evalRequestSize = RequestSize qa,
               evalServiceParms = ServiceParms qa,
               evalMaxBatchSize = MaxBatchSize qa\<rparr>
      in
        case lambdaStar BinarySearch FailedLambdaStarTTFT (EvalTTFT q g)
               lambdaMin lambdaMax targetTTFT (Model qa) of
          (Inl err, utilsModel) \<Rightarrow> (Inl err, utilsModel)
        | (Inr lambdaStarTTFT, utilsModel) \<Rightarrow>
            (case lambdaStar BinarySearch FailedLambdaStarITL (EvalITL q g)
                    lambdaMin lambdaMax targetITL utilsModel of
               (Inl err, utilsModel) \<Rightarrow> (Inl err, utilsModel)
             | (Inr lambdaStarITL, utilsModel) \<Rightarrow>
                 let lambdaStarTPS =
                       (if flt (Fin 0) targetTPS
                        then fmul lambdaMax (fsub (Fin 1) StabilitySafetyFraction)
                        else lambdaMax)
                 in (Inr (lambdaStarTTFT, lambdaStarITL, lambdaStarTPS), utilsModel)))"

definition Size ::
  "queue_pkg \<Rightarrow> search \<Rightarrow> QueueAnalyzer \<Rightarrow> TargetPerf
     \<Rightarrow> (error + TargetRate \<times> AnalysisMetrics \<times> TargetPerf) \<times> MM1ModelStateDependent" where
  "Size q BinarySearch qa targetPerf =
     (case check_TargetPerf targetPerf of
        Some err \<Rightarrow> (Inl err, Model qa)
      | None \<Rightarrow>
          (case lambdaStars q BinarySearch qa targetPerf of
             (Inl err, utilsModel) \<Rightarrow> (Inl err, utilsModel)
           | (Inr (lambdaStarTTFT, lambdaStarITL, lambdaStarTPS), utilsModel) \<Rightarrow>
               let lambda = fmin3 lambdaStarTTFT lambdaStarITL lambdaStarTPS;
                   requestRate = fmul lambda (Fin 1000)
               in
                 (case Analyze q (qa\<lparr>Model := utilsModel\<rparr>) requestRate of
                    (Inl err, model) \<Rightarrow> (Inl err, model)
                  | (Inr metrics, model) \<Rightarrow>
                      let targetRate =
                            \<lparr>RateTargetTTFT = fmul lambdaStarTTFT (Fin 1000),
                             RateTargetITL = fmul lambdaStarITL (Fin 1000),
                             RateTargetTPS = fmul lambdaStarTPS (Fin 1000)\<rparr>;
                          achieved =
                            \<lparr>TargetTTFT = fadd (AvgWaitTime metrics) (AvgPrefillTime metrics),
                             TargetITL = AvgTokenTime metrics,
                             TargetTPS = fmul (Throughput metrics)
                                           (ofInt (AvgOutputTokens (RequestSize qa)))\<rparr>
                      in (Inr (targetRate, metrics, achieved), model))))"

section \<open>Configurations and stand-ins for the two absent packages, for evaluation\<close>

text \<open>
  The simplest collaborators. The solver \<open>constQueue t\<close> reports a lossless queue
  with no waiting and one request in service, each served in time \<open>t\<close> (throughput =
  arrival rate). The search \<open>search0\<close> evaluates the function once at the lower end
  and reports the target as below the range when it is below that value, the upper end
  otherwise.
\<close>

definition constQueue :: "f32 \<Rightarrow> queue_pkg" where
  "constQueue t =
     \<lparr>unsolved = \<lparr>isValid = False, avgNumInServers = Fin 0, avgServTime = Fin 0,
                   throughput = Fin 0, avgRespTime = Fin 0, avgWaitTime = Fin 0\<rparr>,
      solver = (\<lambda>K rates last x p.
                 \<lparr>isValid = True, avgNumInServers = Fin 1, avgServTime = t,
                  throughput = x, avgRespTime = t, avgWaitTime = Fin 0\<rparr>)\<rparr>"

definition search0 :: search where
  "search0 low high target eval utilsModel =
     (case eval low utilsModel of
        (Inl err, utilsModel') \<Rightarrow> ((low, 0, Some err), utilsModel')
      | (Inr y, utilsModel') \<Rightarrow>
          if flt target y then ((low, - 1, None), utilsModel')
          else ((high, 0, None), utilsModel'))"

text \<open>
  The spec's concrete scenario: batch 4, queue 10, prefill (50, 0.01), decode (20, 2),
  500 input and 100 output tokens; a single request takes 2233 msec. \<open>analyzer0\<close> is
  the analyzer built from it.
\<close>

definition parms0 :: ServiceParms where
  "parms0 = mkParms 50 (1 / 100) 20 2"

definition config0 :: Configuration where
  "config0 = mkConfig 4 10 parms0"

definition workload0 :: RequestSize where
  "workload0 = \<lparr>AvgInputTokens = 500, AvgOutputTokens = 100\<rparr>"

definition queue0 :: queue_pkg where
  "queue0 = constQueue (Fin 2233)"

definition analyzer0 :: QueueAnalyzer where
  "analyzer0 =
     \<lparr>MaxBatchSize = 4, MaxQueueSize = 10, ServiceParms = parms0, RequestSize = workload0,
      Model = \<lparr>occupancyUpperBound = 14,
                servRate = [Fin (1 / 2233), Fin (1 / 1218), Fin (3 / 2639), Fin (2 / 1421)],
                solved = unsolved queue0\<rparr>,
      RateRange = \<lparr>Min_rr = Fin (1 / 2233), Max_rr = Fin (1998 / 1421)\<rparr>\<rparr>"

definition noTargets :: TargetPerf where
  "noTargets = \<lparr>TargetTTFT = Fin 0, TargetITL = Fin 0, TargetTPS = Fin 0\<rparr>"

text \<open>
  A configuration that passes \<open>check\<close> with a negative base cost: one request takes
  -10 msec and the largest rate is -99.9 requests/sec.
\<close>

definition parmsNeg :: ServiceParms where
  "parmsNeg = mkParms (- 10) 0 0 0"

definition workload1 :: RequestSize where
  "workload1 = \<lparr>AvgInputTokens = 1, AvgOutputTokens = 1\<rparr>"

definition analyzerNeg :: QueueAnalyzer where
  "analyzerNeg =
     \<lparr>MaxBatchSize = 1, MaxQueueSize = 0, ServiceParms = parmsNeg, RequestSize = workload1,
      Model = \<lparr>occupancyUpperBound = 1, servRate = [Fin (- 1 / 10)],
                solved = unsolved queue0\<rparr>,
      RateRange = \<lparr>Min_rr = Fin (- 1 / 10), Max_rr = Fin (- 999 / 10)\<rparr>\<rparr>"

text \<open>
  A configuration whose service time does not depend on the batch size (both slopes
  zero): every request takes 50 + 99 * 20 = 2030 msec.
\<close>

definition parmsFlat :: ServiceParms where
  "parmsFlat = mkParms 50 0 20 0"

definition queueFlat :: queue_pkg where
  "queueFlat = constQueue (Fin 2030)"

definition analyzerFlat :: QueueAnalyzer where
  "analyzerFlat =
     \<lparr>MaxBatchSize = 4, MaxQueueSize = 10, ServiceParms = parmsFlat, RequestSize = workload0,
      Model = \<lparr>occupancyUpperBound = 14,
                servRate = [Fin (1 / 2030), Fin (2 / 2030), Fin (3 / 2030), Fin (4 / 2030)],
                solved = unsolved queueFlat\<rparr>,
      RateRange = \<lparr>Min_rr = Fin (1 / 2030), Max_rr = Fin (3996 / 2030)\<rparr>\<rparr>"

text \<open>All four parameters zero, and the workload of no input and one output token.\<close>

definition parmsZero :: ServiceParms where
  "parmsZero = mkParms 0 0 0 0"

definition workloadEmpty :: RequestSize where
  "workloadEmpty = \<lparr>AvgInputTokens = 0, AvgOutputTokens = 1\<rparr>"

definition analyzerInf :: "ServiceParms \<Rightarrow> RequestSize \<Rightarrow> QueueAnalyzer" where
  "analyzerInf parms requestSize =
     \<lparr>MaxBatchSize = 4, MaxQueueSize = 10, ServiceParms = parms, RequestSize = requestSize,
      Model = \<lparr>occupancyUpperBound = 14, servRate = [PInf, PInf, PInf, PInf],
                solved = unsolved queue0\<rparr>,
      RateRange = \<lparr>Min_rr = PInf, Max_rr = PInf\<rparr>\<rparr>"

text \<open>Targets for the scenario: loose ones, and one too small for each search.\<close>

definition targets1 :: TargetPerf where
  "targets1 = \<lparr>TargetTTFT = Fin 100, TargetITL = Fin 100, TargetTPS = Fin 5\<rparr>"

definition targetsTTFT :: TargetPerf where
  "targetsTTFT = \<lparr>TargetTTFT = Fin 1, TargetITL = Fin 0, TargetTPS = Fin 0\<rparr>"

definition targetsITL :: TargetPerf where
  "targetsITL = \<lparr>TargetTTFT = Fin 0, TargetITL = Fin 1, TargetTPS = Fin 0\<rparr>"

section \<open>The service time as an affine function\<close>



declare servRateLoop.simps [simp del]


section \<open>Evaluation of the definitions\<close>

lemmas eval_defs = mkConfig_def mkParms_def parms0_def config0_def workload0_def queue0_def
  constQueue_def analyzer0_def noTargets_def parmsNeg_def workload1_def analyzerNeg_def
  parmsFlat_def queueFlat_def analyzerFlat_def parmsZero_def workloadEmpty_def analyzerInf_def
  search0_def targets1_def targetsTTFT_def targetsITL_def

lemmas num_defs = ofInt_def Epsilon_def StabilitySafetyFraction_def fsub_def signed_inf_def
  fmax_def fmin_def fmin3_def wrap64_def

lemmas time_defs = serviceRate_def serviceTime_def PrefillTime_def DecodeTime_def
  numerator_def denominator_def EffectiveConcurrency_def

lemmas queue_defs = NewMM1ModelStateDependent_def Solve_def IsValid_def
  GetAvgNumInServers_def GetAvgServTime_def GetThroughput_def GetAvgRespTime_def
  GetAvgWaitTime_def

lemmas build_defs = NewQueueAnalyzer_def BuildModel_def derefServiceParms_def
  check_Configuration_def check_RequestSize_def

lemma servRateLoop_4:
  "servRateLoop p rs 4 1 [a, b, c, d] =
     [serviceRate p rs 1, serviceRate p rs 2, serviceRate p rs 3, serviceRate p rs 4]"
  by (simp add: servRateLoop.simps)

lemma servRateLoop_1: "servRateLoop p rs 1 1 [a] = [serviceRate p rs 1]"
  by (simp add: servRateLoop.simps)

lemma replicate_4: "replicate 4 x = [x, x, x, x]"
  by (simp add: numeral_eq_Suc)

lemma analyzer0_built: "NewQueueAnalyzer queue0 config0 workload0 = Inr analyzer0"
  by (simp add: eval_defs build_defs time_defs num_defs queue_defs
      servRateLoop_4 replicate_4 Let_def)

lemma analyzerNeg_built:
  "NewQueueAnalyzer queue0 (mkConfig 1 0 parmsNeg) workload1 = Inr analyzerNeg"
  by (simp add: eval_defs build_defs time_defs num_defs queue_defs servRateLoop_1 Let_def)

lemma analyzerFlat_built:
  "NewQueueAnalyzer queueFlat (mkConfig 4 10 parmsFlat) workload0 = Inr analyzerFlat"
  by (simp add: eval_defs build_defs time_defs num_defs queue_defs
      servRateLoop_4 replicate_4 Let_def)


lemma analyzerEmpty_built:
  "NewQueueAnalyzer queue0 config0 workloadEmpty = Inr (analyzerInf parms0 workloadEmpty)"
  by (simp add: eval_defs build_defs time_defs num_defs queue_defs
      servRateLoop_4 replicate_4 Let_def)

section \<open>The loop of \<open>BuildModel\<close>\<close>

lemma servRateLoop_length:
  "length (servRateLoop parms rs N n rates) = length rates"
proof (induction parms rs N n rates rule: servRateLoop.induct)
  case (1 parms rs N n rates)
  show ?case
  proof (cases "n \<le> N")
    case True
    with 1 show ?thesis by (subst servRateLoop.simps) simp
  next
    case False
    then show ?thesis by (subst servRateLoop.simps) simp
  qed
qed

text \<open>
  Started at \<open>n\<close>, the loop leaves the entries below \<open>n - 1\<close> as they were and
  stores the service rate of batch size \<open>i + 1\<close> at every index \<open>i\<close> from there on.
\<close>

lemma servRateLoop_nth:
  "1 \<le> n \<Longrightarrow> length rates = nat N \<Longrightarrow> 0 \<le> i \<Longrightarrow> i < N \<Longrightarrow>
   servRateLoop parms rs N n rates ! nat i =
     (if n - 1 \<le> i then serviceRate parms rs (i + 1) else rates ! nat i)"
proof (induction parms rs N n rates rule: servRateLoop.induct)
  case (1 parms rs N n rates)
  show ?case
  proof (cases "n \<le> N")
    case True
    let ?rates = "rates[nat (n - 1) := serviceRate parms rs n]"
    have step: "servRateLoop parms rs N n rates = servRateLoop parms rs N (n + 1) ?rates"
      using True by (subst servRateLoop.simps) simp
    have ih: "servRateLoop parms rs N (n + 1) ?rates ! nat i =
        (if n + 1 - 1 \<le> i then serviceRate parms rs (i + 1) else ?rates ! nat i)"
      using "1.IH" [OF True] "1.prems" by simp
    show ?thesis
    proof (cases "i = n - 1")
      case True
      then have "nat i < length rates" using "1.prems" by simp
      then show ?thesis using True step ih by simp
    next
      case False
      then have "nat i \<noteq> nat (n - 1)" using "1.prems" by auto
      then show ?thesis using False step ih by auto
    qed
  next
    case False
    then show ?thesis using "1.prems" by (subst servRateLoop.simps) simp
  qed
qed

lemma servRate_built:
  "0 < N \<Longrightarrow> 0 \<le> i \<Longrightarrow> i < N \<Longrightarrow>
   servRateLoop parms rs N 1 (replicate (nat N) (Fin 0)) ! nat i =
     serviceRate parms rs (i + 1)"
  using servRateLoop_nth [of 1 "replicate (nat N) (Fin 0)" N i parms rs] by simp

lemma BuildModel_Inr:
  assumes "derefServiceParms (ServiceParms_cfg c) = Some parms" and "0 < MaxBatchSize_cfg c"
  shows "BuildModel q c rs =
     Inr \<lparr>MaxBatchSize = MaxBatchSize_cfg c,
          MaxQueueSize = MaxQueueSize_cfg c,
          ServiceParms = parms,
          RequestSize = rs,
          Model = NewMM1ModelStateDependent q
                    (wrap64 (MaxQueueSize_cfg c + MaxBatchSize_cfg c))
                    (servRateLoop parms rs (MaxBatchSize_cfg c) 1
                       (replicate (nat (MaxBatchSize_cfg c)) (Fin 0))),
          RateRange =
            \<lparr>Min_rr = fmul (fmul (serviceRate parms rs 1) Epsilon) (Fin 1000),
             Max_rr = fmul (fmul (serviceRate parms rs (MaxBatchSize_cfg c))
                              (fsub (Fin 1) Epsilon)) (Fin 1000)\<rparr>\<rparr>"
proof -
  let ?N = "MaxBatchSize_cfg c"
  have a: "servRateLoop parms rs ?N 1 (replicate (nat ?N) (Fin 0)) ! 0 = serviceRate parms rs 1"
    using servRate_built [of ?N 0 parms rs] assms by simp
  have b: "servRateLoop parms rs ?N 1 (replicate (nat ?N) (Fin 0)) ! nat (?N - 1) =
      serviceRate parms rs ?N"
    using servRate_built [of ?N "?N - 1" parms rs] assms by simp
  show ?thesis using assms a b by (simp add: BuildModel_def Let_def)
qed

text \<open>What a successful \<open>NewQueueAnalyzer\<close> says about its arguments.\<close>

lemma NewQueueAnalyzer_Inr:
  assumes "NewQueueAnalyzer q c rs = Inr qa"
  shows "\<exists>parms. derefServiceParms (ServiceParms_cfg c) = Some parms \<and>
           0 < MaxBatchSize_cfg c \<and> 0 \<le> MaxQueueSize_cfg c \<and>
           0 \<le> AvgInputTokens rs \<and> 1 \<le> AvgOutputTokens rs \<and>
           BuildModel q c rs = Inr qa"
proof -
  have c: "check_Configuration c = None" and r: "check_RequestSize rs = None"
    and b: "BuildModel q c rs = Inr qa"
    using assms by (auto simp: NewQueueAnalyzer_def split: option.splits)
  from c have "0 < MaxBatchSize_cfg c" "0 \<le> MaxQueueSize_cfg c"
    and "\<exists>parms. derefServiceParms (ServiceParms_cfg c) = Some parms"
    by (auto simp: check_Configuration_def derefServiceParms_def
        split: if_splits option.splits)
  moreover from r have "0 \<le> AvgInputTokens rs" "1 \<le> AvgOutputTokens rs"
    by (auto simp: check_RequestSize_def split: if_splits)
  ultimately show ?thesis using b by auto
qed


section \<open>Facts about the numbers\<close>








section \<open>The analyzer of the scenario, evaluated\<close>



section \<open>The rate range of a built analyzer\<close>

text \<open>
  Claim C2 says that both ends of the rate range are a service rate reduced by the
  fraction 0.001: \<open>min = serviceRate(1) * (1 - 0.001)\<close> and
  \<open>max = serviceRate(maxBatchSize) * (1 - 0.001)\<close>, in requests/sec. The upper end is
  so; the lower end is not. In the analyzer of the scenario, \<open>min\<close> is 1/2233
  requests/sec, while the service rate at batch size 1 reduced by 0.001 is 999/2233.
\<close>

theorem rateRange_min_is_not_rate_less_epsilon:
  "NewQueueAnalyzer queue0 config0 workload0 = Inr analyzer0 \<and>
   Min_rr (RateRange analyzer0) = Fin (1 / 2233) \<and>
   fmul (fmul (serviceRate parms0 workload0 1) (fsub (Fin 1) Epsilon)) (Fin 1000) = Fin (999 / 2233) \<and>
   Min_rr (RateRange analyzer0) \<noteq>
     fmul (fmul (serviceRate parms0 workload0 1) (fsub (Fin 1) Epsilon)) (Fin 1000)"
proof -
  have "fmul (fmul (serviceRate parms0 workload0 1) (fsub (Fin 1) Epsilon)) (Fin 1000) = Fin (999 / 2233)"
    by (simp add: eval_defs time_defs num_defs)
  moreover have "Min_rr (RateRange analyzer0) = Fin (1 / 2233)"
    by (simp add: analyzer0_def)
  ultimately show ?thesis using analyzer0_built by simp
qed

text \<open>
  Claim C2 as the code has it: for every analyzer that \<open>NewQueueAnalyzer\<close> builds,
  \<open>min\<close> is the service rate at batch size 1 multiplied by \<open>Epsilon\<close> (a rate
  slightly above zero), \<open>max\<close> is the service rate at the maximum batch size
  multiplied by \<open>1 - Epsilon\<close>, and both are scaled by 1000 to requests/sec.
\<close>

theorem rateRange_of_new_analyzer:
  assumes "NewQueueAnalyzer q c rs = Inr qa"
  shows "Min_rr (RateRange qa) =
           fmul (fmul (serviceRate (ServiceParms qa) (RequestSize qa) 1) Epsilon) (Fin 1000) \<and>
         Max_rr (RateRange qa) =
           fmul (fmul (serviceRate (ServiceParms qa) (RequestSize qa) (MaxBatchSize qa))
                   (fsub (Fin 1) Epsilon)) (Fin 1000) \<and>
         derefServiceParms (ServiceParms_cfg c) = Some (ServiceParms qa) \<and>
         RequestSize qa = rs \<and> MaxBatchSize qa = MaxBatchSize_cfg c"
proof -
  from NewQueueAnalyzer_Inr [OF assms] obtain parms where
    p: "derefServiceParms (ServiceParms_cfg c) = Some parms" and n: "0 < MaxBatchSize_cfg c"
    and b: "BuildModel q c rs = Inr qa" by blast
  from BuildModel_Inr [OF p n, of q rs] b show ?thesis using p by auto
qed

text \<open>The analyzer of the scenario is an instance.\<close>

theorem rateRange_of_new_analyzer_witness:
  "NewQueueAnalyzer queue0 config0 workload0 = Inr analyzer0 \<and>
   Min_rr (RateRange analyzer0) =
     fmul (fmul (serviceRate (ServiceParms analyzer0) (RequestSize analyzer0) 1) Epsilon) (Fin 1000) \<and>
   Max_rr (RateRange analyzer0) =
     fmul (fmul (serviceRate (ServiceParms analyzer0) (RequestSize analyzer0) (MaxBatchSize analyzer0))
             (fsub (Fin 1) Epsilon)) (Fin 1000)"
  using rateRange_of_new_analyzer [OF analyzer0_built] analyzer0_built by simp

section \<open>Sizing without targets\<close>




section \<open>The guards of \<open>Analyze\<close>\<close>

text \<open>
  Claim C3 says that \<open>Analyze\<close> fails with the rate-out-of-range error if and only if
  \<open>requestRate > rateRange.max\<close>. The guard \<open>requestRate <= 0\<close> comes first: a
  configuration with a negative base cost passes \<open>check\<close> and gives the range a
  negative maximum, -99.9 requests/sec; the rate -50 is above it, and \<open>Analyze\<close>
  refuses it as an invalid rate.
\<close>

theorem analyze_invalid_rate_above_negative_max:
  "NewQueueAnalyzer queue0 (mkConfig 1 0 parmsNeg) workload1 = Inr analyzerNeg \<and>
   Max_rr (RateRange analyzerNeg) = Fin (- 999 / 10) \<and>
   flt (Max_rr (RateRange analyzerNeg)) (Fin (- 50)) \<and>
   fst (Analyze queue0 analyzerNeg (Fin (- 50))) = Inl InvalidRate \<and>
   fst (Analyze queue0 analyzerNeg (Fin (- 50))) \<noteq> Inl RateOutOfRange"
  using analyzerNeg_built by (simp add: Analyze_def analyzerNeg_def Let_def)

text \<open>
  Claim C3 as the code has it, for every analyzer and rate: the invalid-rate error if
  and only if \<open>requestRate <= 0\<close>; the out-of-range error if and only if that is not
  so and \<open>requestRate > rateRange.max\<close>; otherwise, when the solved model is valid,
  metrics. A rate equal to \<open>rateRange.max\<close> is never out of range.
\<close>

theorem analyze_guards:
  "(fst (Analyze q qa r) = Inl InvalidRate \<longleftrightarrow> fle r (Fin 0)) \<and>
   (fst (Analyze q qa r) = Inl RateOutOfRange \<longleftrightarrow>
      \<not> fle r (Fin 0) \<and> flt (Max_rr (RateRange qa)) r) \<and>
   (\<not> fle r (Fin 0) \<and> \<not> flt (Max_rr (RateRange qa)) r \<and>
    IsValid (Solve q (Model qa) (fdiv r (Fin 1000)) 1)
      \<longrightarrow> (\<exists>metrics. fst (Analyze q qa r) = Inr metrics)) \<and>
   fst (Analyze q qa (Max_rr (RateRange qa))) \<noteq> Inl RateOutOfRange"
proof -
  have irr: "\<not> flt x x" for x by (cases x) simp_all
  have 1: "fst (Analyze q qa r) = Inl InvalidRate \<longleftrightarrow> fle r (Fin 0)"
    by (simp add: Analyze_def Let_def)
  have 2: "fst (Analyze q qa r) = Inl RateOutOfRange \<longleftrightarrow>
      \<not> fle r (Fin 0) \<and> flt (Max_rr (RateRange qa)) r"
    by (simp add: Analyze_def Let_def)
  have 3: "\<not> fle r (Fin 0) \<and> \<not> flt (Max_rr (RateRange qa)) r \<and>
    IsValid (Solve q (Model qa) (fdiv r (Fin 1000)) 1)
      \<longrightarrow> (\<exists>metrics. fst (Analyze q qa r) = Inr metrics)"
    by (simp add: Analyze_def Let_def)
  have 4: "fst (Analyze q qa (Max_rr (RateRange qa))) \<noteq> Inl RateOutOfRange"
    by (simp add: Analyze_def Let_def irr)
  from 1 2 3 4 show ?thesis by blast
qed

text \<open>The scenario's analyzer at its maximum rate: accepted, and metrics are returned.\<close>

theorem analyze_guards_witness:
  "\<not> fle (Fin (1998 / 1421)) (Fin 0) \<and>
   \<not> flt (Max_rr (RateRange analyzer0)) (Fin (1998 / 1421)) \<and>
   IsValid (Solve queue0 (Model analyzer0) (fdiv (Fin (1998 / 1421)) (Fin 1000)) 1) \<and>
   (\<exists>metrics. fst (Analyze queue0 analyzer0 (Fin (1998 / 1421))) = Inr metrics)"
proof -
  have h: "\<not> fle (Fin (1998 / 1421)) (Fin 0) \<and>
   \<not> flt (Max_rr (RateRange analyzer0)) (Fin (1998 / 1421)) \<and>
   IsValid (Solve queue0 (Model analyzer0) (fdiv (Fin (1998 / 1421)) (Fin 1000)) 1)"
    by (simp add: eval_defs queue_defs)
  with analyze_guards [of queue0 analyzer0 "Fin (1998 / 1421)"] show ?thesis by blast
qed

section \<open>The two clamps\<close>

text \<open>
  A clamp \<open>min(max(n, 0), h)\<close> lands in \<open>[0, h]\<close> for every \<open>n\<close> but NaN, infinities
  included; Go's \<open>min\<close> and \<open>max\<close> return NaN for NaN.
\<close>

lemma clamp_in_range:
  "n \<noteq> NaN \<Longrightarrow> 0 \<le> h \<Longrightarrow>
   fle (Fin 0) (fmin (fmax n (Fin 0)) (Fin h)) \<and> fle (fmin (fmax n (Fin 0)) (Fin h)) (Fin h)"
  by (cases n) (auto simp: fmax_def fmin_def)

lemma clamp_NaN: "fmin (fmax NaN lo) hi = NaN"
  by (simp add: fmax_def fmin_def)

lemma Rho_in_range:
  assumes "Analyze q qa r = (Inr metrics, model)" and "0 < MaxBatchSize qa"
    and "AvgNumInServ metrics \<noteq> NaN"
  shows "fle (Fin 0) (Rho metrics) \<and> fle (Rho metrics) (Fin 1)"
proof -
  let ?n = "GetAvgNumInServers (Solve q (Model qa) (fdiv r (Fin 1000)) 1)"
  from assms(1) have n: "AvgNumInServ metrics = ?n"
    and rho: "Rho metrics = fmin (fmax (fdiv ?n (ofInt (MaxBatchSize qa))) (Fin 0)) (Fin 1)"
    by (auto simp: Analyze_def Let_def split: if_splits)
  have "fdiv ?n (ofInt (MaxBatchSize qa)) \<noteq> NaN"
    using assms(2,3) unfolding n by (cases ?n) (auto simp: ofInt_def)
  from clamp_in_range [OF this, of 1] show ?thesis by (simp add: rho)
qed

lemma EffectiveConcurrency_in_range:
  assumes "fdiv (numerator t parms rs) (denominator parms rs) \<noteq> NaN" and "0 \<le> maxBatchSize"
  shows "fle (Fin 0) (EffectiveConcurrency t parms rs maxBatchSize) \<and>
         fle (EffectiveConcurrency t parms rs maxBatchSize) (ofInt maxBatchSize)"
  using clamp_in_range [OF assms(1), of "of_int maxBatchSize"] assms(2)
  by (simp add: EffectiveConcurrency_def ofInt_def Let_def)

text \<open>
  Claim C4 says that the utilization of a successful \<open>Analyze\<close> is in \<open>[0, 1]\<close> and the
  effective concurrency in \<open>[0, maxBatchSize]\<close>, whatever average service time the
  solved model reports. The two lemmas above give both for every value of the quotient
  but NaN. The quotient of \<open>EffectiveConcurrency\<close> is NaN where its numerator and its
  denominator are both zero: with both slopes zero the denominator is zero, and the
  average service time 2030 msec that every request of that configuration takes makes
  the numerator zero. The effective concurrency is then NaN, in no range, and so are the
  prefill time and the token time of the metrics.
\<close>

theorem effective_concurrency_not_a_number:
  "EffectiveConcurrency (Fin 2030) parmsFlat workload0 4 = NaN \<and>
   \<not> fle (Fin 0) (EffectiveConcurrency (Fin 2030) parmsFlat workload0 4) \<and>
   \<not> fle (EffectiveConcurrency (Fin 2030) parmsFlat workload0 4) (ofInt 4) \<and>
   NewQueueAnalyzer queueFlat (mkConfig 4 10 parmsFlat) workload0 = Inr analyzerFlat \<and>
   fst (Analyze queueFlat analyzerFlat (Fin 1)) =
     Inr \<lparr>Throughput = Fin 1, AvgRespTime = Fin 2030, AvgWaitTime = Fin 0,
          AvgNumInServ = Fin 1, AvgPrefillTime = NaN, AvgTokenTime = NaN,
          MaxRate = Fin (3996 / 2030), Rho = Fin (1 / 4)\<rparr>"
proof -
  have e: "EffectiveConcurrency (Fin 2030) parmsFlat workload0 4 = NaN"
    by (simp add: eval_defs time_defs num_defs)
  have a: "fst (Analyze queueFlat analyzerFlat (Fin 1)) =
     Inr \<lparr>Throughput = Fin 1, AvgRespTime = Fin 2030, AvgWaitTime = Fin 0,
          AvgNumInServ = Fin 1, AvgPrefillTime = NaN, AvgTokenTime = NaN,
          MaxRate = Fin (3996 / 2030), Rho = Fin (1 / 4)\<rparr>"
    by (simp add: Analyze_def eval_defs time_defs num_defs queue_defs Let_def)
  show ?thesis using e a analyzerFlat_built by simp
qed

section \<open>The service-rate profile\<close>










section \<open>The effective concurrency inverts the service time\<close>



section \<open>What a successful \<open>Size\<close> returns\<close>




section \<open>A target below the searched region\<close>

text \<open>
  Claim C8: the targets being valid, when the target TTFT is positive and the search
  over \<open>[lambdaMin, lambdaMax]\<close> returns a negative indicator, \<open>Size\<close> returns the
  error "target is below the bounded region" under the message of the TTFT block, and
  no values; and the same for the target ITL, whose search runs when the TTFT block has
  produced a rate.
\<close>

theorem size_target_below_region:
  assumes chk: "check_TargetPerf tp = None"
    and lmin: "lambdaMin = fdiv (Min_rr (RateRange qa)) (Fin 1000)"
    and lmax: "lambdaMax = fdiv (Max_rr (RateRange qa)) (Fin 1000)"
    and g: "g = \<lparr>evalRequestSize = RequestSize qa, evalServiceParms = ServiceParms qa,
                 evalMaxBatchSize = MaxBatchSize qa\<rparr>"
  shows "(flt (Fin 0) (TargetTTFT tp) \<and>
          bs lambdaMin lambdaMax (TargetTTFT tp) (EvalTTFT q g) (Model qa) = ((x, ind, err), m) \<and>
          ind < 0
            \<longrightarrow> Size q bs qa tp = (Inl (FailedLambdaStarTTFT TargetUnreachableLow), m)) \<and>
         (lambdaStar bs FailedLambdaStarTTFT (EvalTTFT q g) lambdaMin lambdaMax (TargetTTFT tp)
            (Model qa) = (Inr lambdaStarTTFT, m1) \<and>
          flt (Fin 0) (TargetITL tp) \<and>
          bs lambdaMin lambdaMax (TargetITL tp) (EvalITL q g) m1 = ((x', ind', err'), m2) \<and>
          ind' < 0
            \<longrightarrow> Size q bs qa tp = (Inl (FailedLambdaStarITL TargetUnreachableLow), m2))"
proof -
  have 1: "Size q bs qa tp = (Inl (FailedLambdaStarTTFT TargetUnreachableLow), m)"
    if "flt (Fin 0) (TargetTTFT tp)"
      and "bs lambdaMin lambdaMax (TargetTTFT tp) (EvalTTFT q g) (Model qa) = ((x, ind, err), m)"
      and "ind < 0"
  proof -
    have "lambdaStar bs FailedLambdaStarTTFT (EvalTTFT q g) lambdaMin lambdaMax (TargetTTFT tp)
            (Model qa) = (Inl (FailedLambdaStarTTFT TargetUnreachableLow), m)"
      using that by (simp add: lambdaStar_def)
    then have "lambdaStars q bs qa tp = (Inl (FailedLambdaStarTTFT TargetUnreachableLow), m)"
      by (simp add: lambdaStars_def Let_def lmin [symmetric] lmax [symmetric] g [symmetric])
    then show ?thesis by (simp add: Size_def chk)
  qed
  have 2: "Size q bs qa tp = (Inl (FailedLambdaStarITL TargetUnreachableLow), m2)"
    if a: "lambdaStar bs FailedLambdaStarTTFT (EvalTTFT q g) lambdaMin lambdaMax (TargetTTFT tp)
            (Model qa) = (Inr lambdaStarTTFT, m1)"
      and "flt (Fin 0) (TargetITL tp)"
      and "bs lambdaMin lambdaMax (TargetITL tp) (EvalITL q g) m1 = ((x', ind', err'), m2)"
      and "ind' < 0"
  proof -
    have "lambdaStar bs FailedLambdaStarITL (EvalITL q g) lambdaMin lambdaMax (TargetITL tp) m1
            = (Inl (FailedLambdaStarITL TargetUnreachableLow), m2)"
      using that by (simp add: lambdaStar_def)
    with a have "lambdaStars q bs qa tp = (Inl (FailedLambdaStarITL TargetUnreachableLow), m2)"
      by (simp add: lambdaStars_def Let_def lmin [symmetric] lmax [symmetric] g [symmetric])
    then show ?thesis by (simp add: Size_def chk)
  qed
  from 1 2 show ?thesis by blast
qed

text \<open>
  The scenario with a target TTFT of 1 msec (the TTFT at the lowest rate is 55 msec),
  and with a target ITL of 1 msec (the ITL there is 22 msec).
\<close>

theorem size_target_below_region_witness:
  "check_TargetPerf targetsTTFT = None \<and> flt (Fin 0) (TargetTTFT targetsTTFT) \<and>
   search0 (Fin (1 / 2233000)) (Fin (999 / 710500)) (TargetTTFT targetsTTFT)
     (EvalTTFT queue0 \<lparr>evalRequestSize = workload0, evalServiceParms = parms0,
                        evalMaxBatchSize = 4\<rparr>) (Model analyzer0) =
     ((Fin (1 / 2233000), - 1, None), Solve queue0 (Model analyzer0) (Fin (1 / 2233000)) 1) \<and>
   Size queue0 search0 analyzer0 targetsTTFT =
     (Inl (FailedLambdaStarTTFT TargetUnreachableLow),
      Solve queue0 (Model analyzer0) (Fin (1 / 2233000)) 1) \<and>
   check_TargetPerf targetsITL = None \<and> flt (Fin 0) (TargetITL targetsITL) \<and>
   search0 (Fin (1 / 2233000)) (Fin (999 / 710500)) (TargetITL targetsITL)
     (EvalITL queue0 \<lparr>evalRequestSize = workload0, evalServiceParms = parms0,
                       evalMaxBatchSize = 4\<rparr>) (Model analyzer0) =
     ((Fin (1 / 2233000), - 1, None), Solve queue0 (Model analyzer0) (Fin (1 / 2233000)) 1) \<and>
   Size queue0 search0 analyzer0 targetsITL =
     (Inl (FailedLambdaStarITL TargetUnreachableLow),
      Solve queue0 (Model analyzer0) (Fin (1 / 2233000)) 1)"
proof -
  let ?g = "\<lparr>evalRequestSize = workload0, evalServiceParms = parms0, evalMaxBatchSize = 4\<rparr>"
  let ?m = "Solve queue0 (Model analyzer0) (Fin (1 / 2233000)) 1"
  have lmin: "Fin (1 / 2233000) = fdiv (Min_rr (RateRange analyzer0)) (Fin 1000)"
    and lmax: "Fin (999 / 710500) = fdiv (Max_rr (RateRange analyzer0)) (Fin 1000)"
    and g: "?g = \<lparr>evalRequestSize = RequestSize analyzer0,
                   evalServiceParms = ServiceParms analyzer0,
                   evalMaxBatchSize = MaxBatchSize analyzer0\<rparr>"
    by (simp_all add: analyzer0_def)
  have c1: "check_TargetPerf targetsTTFT = None" and p1: "flt (Fin 0) (TargetTTFT targetsTTFT)"
    and c2: "check_TargetPerf targetsITL = None" and p2: "flt (Fin 0) (TargetITL targetsITL)"
    by (simp_all add: check_TargetPerf_def targetsTTFT_def targetsITL_def)
  have s1: "search0 (Fin (1 / 2233000)) (Fin (999 / 710500)) (TargetTTFT targetsTTFT)
              (EvalTTFT queue0 ?g) (Model analyzer0) = ((Fin (1 / 2233000), - 1, None), ?m)"
    by (simp add: search0_def EvalTTFT_def targetsTTFT_def eval_defs time_defs num_defs
        queue_defs Let_def)
  have s2: "search0 (Fin (1 / 2233000)) (Fin (999 / 710500)) (TargetITL targetsITL)
              (EvalITL queue0 ?g) (Model analyzer0) = ((Fin (1 / 2233000), - 1, None), ?m)"
    by (simp add: search0_def EvalITL_def targetsITL_def eval_defs time_defs num_defs
        queue_defs Let_def)
  have l: "lambdaStar search0 FailedLambdaStarTTFT (EvalTTFT queue0 ?g) (Fin (1 / 2233000))
             (Fin (999 / 710500)) (TargetTTFT targetsITL) (Model analyzer0) =
           (Inr (Fin (999 / 710500)), Model analyzer0)"
    by (simp add: lambdaStar_def targetsITL_def)
  have neg: "(- 1 :: int) < 0" by simp
  have r1: "Size queue0 search0 analyzer0 targetsTTFT =
      (Inl (FailedLambdaStarTTFT TargetUnreachableLow), ?m)"
    using size_target_below_region [OF c1 lmin lmax g] p1 s1 neg by blast
  have r2: "Size queue0 search0 analyzer0 targetsITL =
      (Inl (FailedLambdaStarITL TargetUnreachableLow), ?m)"
    using size_target_below_region [OF c2 lmin lmax g] l p2 s2 neg by blast
  from c1 p1 s1 r1 c2 p2 s2 r2 show ?thesis by blast
qed

section \<open>Analyzing again at the rate \<open>Size\<close> chose\<close>








section \<open>Divisors\<close>

text \<open>
  Claim C10 says that every divisor is nonzero for a configuration and a workload that
  pass validation, the workload of no input token and one output token included. For
  that workload, which \<open>check\<close> accepts, the prefill time is 0 and the decode time is
  multiplied by 0: the service time, divisor of the service rate in \<open>BuildModel\<close>, is
  zero at every batch size, and so is the denominator of \<open>EffectiveConcurrency\<close>. The
  analyzer is built with an infinite service rate at every batch size and an infinite
  rate range.
\<close>

theorem zero_divisors_on_valid_workload:
  "check_Configuration config0 = None \<and> check_RequestSize workloadEmpty = None \<and>
   serviceTime parms0 workloadEmpty (ofInt 1) = Fin 0 \<and>
   serviceTime parms0 workloadEmpty (ofInt 2) = Fin 0 \<and>
   serviceTime parms0 workloadEmpty (ofInt 3) = Fin 0 \<and>
   serviceTime parms0 workloadEmpty (ofInt 4) = Fin 0 \<and>
   denominator parms0 workloadEmpty = Fin 0 \<and>
   NewQueueAnalyzer queue0 config0 workloadEmpty = Inr (analyzerInf parms0 workloadEmpty) \<and>
   servRate (Model (analyzerInf parms0 workloadEmpty)) = [PInf, PInf, PInf, PInf] \<and>
   RateRange (analyzerInf parms0 workloadEmpty) = \<lparr>Min_rr = PInf, Max_rr = PInf\<rparr>"
  using analyzerEmpty_built
  by (simp add: eval_defs build_defs time_defs num_defs)

end
